theory Spec2Isabelle
  imports Main
begin

section \<open>Values, exceptions and the event trace\<close>

text \<open>
  The migrator (snowflakeMig.py) talks to two remote sessions and to the local file
  system. Every such interaction is an event appended to a trace; what the outside world
  answers is given by an environment whose answers may depend on the whole trace so far.
  Strings are ASCII text: characters above 127 have no case, are no word characters and
  are no white space. Console prints and info/debug log records carry no control flow and
  are left out, except where formatting a value can raise; warning and error records are
  events of the trace.
\<close>

datatype val = VInt int | VStr string | VNone

type_synonym row = "(string \<times> val) list"

datatype session = Src | Tgt

datatype exn_kind = RuntimeError | IndexError | KeyError | TypeError | ValueError | AttributeError
  | SnowparkSQLException | OSError

datatype exn = Exn exn_kind string

fun str_exn :: "exn \<Rightarrow> string" where
  "str_exn (Exn k m) = m"

datatype level = LogWarning | LogError

datatype event =
    Connect session
  | Sql session string
  | Clock
  | MakeDirs string
  | Glob string
  | RemoveFile string
  | ListDir string
  | GetSize string
  | PathExists string
  | MkDTemp string
  | RmTree string
  | Logged level string

record datetime =
  year :: nat
  month :: nat
  day :: nat
  hour :: nat
  minute :: nat
  second :: nat
  microsecond :: nat

record env =
  connect_resp :: "event list \<Rightarrow> session \<Rightarrow> exn + unit"
  sql_resp :: "event list \<Rightarrow> session \<Rightarrow> string \<Rightarrow> exn + row list"
  utcnow_resp :: "event list \<Rightarrow> datetime"
  makedirs_resp :: "event list \<Rightarrow> string \<Rightarrow> exn + unit"
  glob_resp :: "event list \<Rightarrow> string \<Rightarrow> string list"
  remove_resp :: "event list \<Rightarrow> string \<Rightarrow> exn + unit"
  listdir_resp :: "event list \<Rightarrow> string \<Rightarrow> exn + string list"
  getsize_resp :: "event list \<Rightarrow> string \<Rightarrow> exn + int"
  exists_resp :: "event list \<Rightarrow> string \<Rightarrow> bool"
  mkdtemp_resp :: "event list \<Rightarrow> string \<Rightarrow> exn + string"
  rmtree_resp :: "event list \<Rightarrow> string \<Rightarrow> exn + unit"

type_synonym 'a io = "event list \<Rightarrow> (exn + 'a) \<times> event list"

definition io_return :: "'a \<Rightarrow> 'a io" where
  "io_return x log = (Inr x, log)"

definition io_raise :: "exn \<Rightarrow> 'a io" where
  "io_raise e log = (Inl e, log)"

definition io_bind :: "'a io \<Rightarrow> ('a \<Rightarrow> 'b io) \<Rightarrow> 'b io" where
  "io_bind m f log = (case m log of (Inl e, log1) \<Rightarrow> (Inl e, log1) | (Inr x, log1) \<Rightarrow> f x log1)"

definition io_then :: "unit io \<Rightarrow> 'b io \<Rightarrow> 'b io" where
  "io_then m k = io_bind m (\<lambda>_. k)"

definition io_try :: "'a io \<Rightarrow> (exn \<Rightarrow> 'a io) \<Rightarrow> 'a io" where
  "io_try m h log = (case m log of (Inl e, log1) \<Rightarrow> h e log1 | (Inr x, log1) \<Rightarrow> (Inr x, log1))"

definition io_lift :: "exn + 'a \<Rightarrow> 'a io" where
  "io_lift r log = (r, log)"

text \<open>The primitive interactions: each appends its event and returns the world's answer.\<close>

definition sql_collect :: "env \<Rightarrow> session \<Rightarrow> string \<Rightarrow> row list io" where
  "sql_collect env s q log = (sql_resp env log s q, log @ [Sql s q])"

definition sql_exec :: "env \<Rightarrow> session \<Rightarrow> string \<Rightarrow> unit io" where
  "sql_exec env s q = io_bind (sql_collect env s q) (\<lambda>_. io_return ())"

definition session_create :: "env \<Rightarrow> session \<Rightarrow> unit io" where
  "session_create env s log = (connect_resp env log s, log @ [Connect s])"

definition utcnow :: "env \<Rightarrow> datetime io" where
  "utcnow env log = (Inr (utcnow_resp env log), log @ [Clock])"

definition os_makedirs :: "env \<Rightarrow> string \<Rightarrow> unit io" where
  "os_makedirs env p log = (makedirs_resp env log p, log @ [MakeDirs p])"

definition glob_glob :: "env \<Rightarrow> string \<Rightarrow> string list io" where
  "glob_glob env p log = (Inr (glob_resp env log p), log @ [Glob p])"

definition os_remove :: "env \<Rightarrow> string \<Rightarrow> unit io" where
  "os_remove env p log = (remove_resp env log p, log @ [RemoveFile p])"

definition os_listdir :: "env \<Rightarrow> string \<Rightarrow> string list io" where
  "os_listdir env p log = (listdir_resp env log p, log @ [ListDir p])"

definition os_getsize :: "env \<Rightarrow> string \<Rightarrow> int io" where
  "os_getsize env p log = (getsize_resp env log p, log @ [GetSize p])"

definition os_path_exists :: "env \<Rightarrow> string \<Rightarrow> bool io" where
  "os_path_exists env p log = (Inr (exists_resp env log p), log @ [PathExists p])"

definition tempfile_mkdtemp :: "env \<Rightarrow> string \<Rightarrow> string io" where
  "tempfile_mkdtemp env pre log = (mkdtemp_resp env log pre, log @ [MkDTemp pre])"

definition shutil_rmtree :: "env \<Rightarrow> string \<Rightarrow> unit io" where
  "shutil_rmtree env p log = (rmtree_resp env log p, log @ [RmTree p])"

definition logging :: "level \<Rightarrow> string \<Rightarrow> unit io" where
  "logging lv msg log = (Inr (), log @ [Logged lv msg])"

section \<open>Python string and value helpers\<close>

definition dq :: "string \<Rightarrow> string" where
  \<open>dq s = ''"'' @ s @ ''"''\<close>

definition sq :: "string \<Rightarrow> string" where
  "sq s = CHR 0x27 # s @ [CHR 0x27]"

definition nl :: string where
  "nl = [CHR 0x0A]"

definition ascii_lowercase :: string where
  "ascii_lowercase = ''abcdefghijklmnopqrstuvwxyz''"

definition ascii_uppercase :: string where
  "ascii_uppercase = ''ABCDEFGHIJKLMNOPQRSTUVWXYZ''"

definition upper_char :: "char \<Rightarrow> char" where
  "upper_char c = (case map_of (zip ascii_lowercase ascii_uppercase) c of Some u \<Rightarrow> u | None \<Rightarrow> c)"

definition lower_char :: "char \<Rightarrow> char" where
  "lower_char c = (case map_of (zip ascii_uppercase ascii_lowercase) c of Some l \<Rightarrow> l | None \<Rightarrow> c)"

definition py_upper :: "string \<Rightarrow> string" where
  "py_upper s = map upper_char s"

definition py_lower :: "string \<Rightarrow> string" where
  "py_lower s = map lower_char s"

fun startswith :: "string \<Rightarrow> string \<Rightarrow> bool" where
  "startswith s [] = True"
| "startswith [] (p # ps) = False"
| "startswith (c # cs) (p # ps) = (if c = p then startswith cs ps else False)"

definition endswith :: "string \<Rightarrow> string \<Rightarrow> bool" where
  "endswith s p = (length p \<le> length s \<and> drop (length s - length p) s = p)"

fun py_in :: "string \<Rightarrow> string \<Rightarrow> bool" where
  "py_in sub [] = (sub = [])"
| "py_in sub (c # cs) = (startswith (c # cs) sub \<or> py_in sub cs)"

definition py_strip :: "char \<Rightarrow> string \<Rightarrow> string" where
  "py_strip ch s = rev (dropWhile (\<lambda>c. c = ch) (rev (dropWhile (\<lambda>c. c = ch) s)))"

definition digit_char :: "nat \<Rightarrow> char" where
  "digit_char n = ''0123456789'' ! n"

function str_nat :: "nat \<Rightarrow> string" where
  "str_nat n = (if n < 10 then [digit_char n] else str_nat (n div 10) @ [digit_char (n mod 10)])"
  by pat_completeness auto
termination
  by (relation "measure id") auto

declare str_nat.simps [simp del]

definition str_int :: "int \<Rightarrow> string" where
  "str_int i = (if i < 0 then CHR ''-'' # str_nat (nat (- i)) else str_nat (nat i))"

function group3 :: "string \<Rightarrow> string" where
  "group3 ds = (if length ds \<le> 3 then ds
     else group3 (take (length ds - 3) ds) @ '','' @ drop (length ds - 3) ds)"
  by pat_completeness auto
termination
  by (relation "measure length") auto

declare group3.simps [simp del]

text \<open>The format specification \<^verbatim>\<open>{n:,}\<close> on an int.\<close>

definition fmt_comma_int :: "int \<Rightarrow> string" where
  "fmt_comma_int i = (if i < 0 then CHR ''-'' # group3 (str_nat (nat (- i))) else group3 (str_nat (nat i)))"

text \<open>\<^verbatim>\<open>{v:,}\<close> on a value that is not a number raises.\<close>

fun fmt_comma :: "val \<Rightarrow> exn + string" where
  "fmt_comma (VInt i) = Inr (fmt_comma_int i)"
| "fmt_comma (VStr s) = Inl (Exn ValueError (''Cannot specify '' @ sq '','' @ '' with '' @ sq ''s'' @ ''.''))"
| "fmt_comma VNone = Inl (Exn TypeError ''unsupported format string passed to NoneType.__format__'')"

fun py_str :: "val \<Rightarrow> string" where
  "py_str (VInt i) = str_int i"
| "py_str (VStr s) = s"
| "py_str VNone = ''None''"

fun truthy :: "val \<Rightarrow> bool" where
  "truthy (VInt i) = (i \<noteq> 0)"
| "truthy (VStr s) = (s \<noteq> [])"
| "truthy VNone = False"

definition py_or :: "val \<Rightarrow> val \<Rightarrow> val" where
  "py_or a b = (if truthy a then a else b)"

definition hex_digit :: "nat \<Rightarrow> char" where
  "hex_digit n = ''0123456789abcdef'' ! n"

definition repr_char :: "char \<Rightarrow> char \<Rightarrow> string" where
  "repr_char quote c = (let n = (of_char c :: nat) in
     if c = quote \<or> c = CHR 0x5C then [CHR 0x5C, c]
     else if c = CHR 0x09 then [CHR 0x5C, CHR ''t'']
     else if c = CHR 0x0A then [CHR 0x5C, CHR ''n'']
     else if c = CHR 0x0D then [CHR 0x5C, CHR ''r'']
     else if n < 32 \<or> 127 \<le> n then [CHR 0x5C, CHR ''x'', hex_digit (n div 16), hex_digit (n mod 16)]
     else [c])"

definition py_repr_str :: "string \<Rightarrow> string" where
  "py_repr_str s = (let quote = (if CHR 0x27 \<in> set s \<and> CHR 0x22 \<notin> set s then CHR 0x22 else CHR 0x27)
     in quote # concat (map (repr_char quote) s) @ [quote])"

fun py_repr :: "val \<Rightarrow> string" where
  "py_repr (VInt i) = str_int i"
| "py_repr (VStr s) = py_repr_str s"
| "py_repr VNone = ''None''"

fun join_with :: "string \<Rightarrow> string list \<Rightarrow> string" where
  "join_with sep [] = []"
| "join_with sep [x] = x"
| "join_with sep (x # y # ys) = x @ sep @ join_with sep (y # ys)"

definition py_repr_list :: "string list \<Rightarrow> string" where
  "py_repr_list xs = ''['' @ join_with '', '' xs @ '']''"

definition fq_name :: "string \<Rightarrow> string \<Rightarrow> string \<Rightarrow> string" where
  "fq_name db schema table = dq db @ ''.'' @ dq schema @ ''.'' @ dq table"

text \<open>Indexing a list or a row: out of range raises IndexError.\<close>

definition first_row :: "row list \<Rightarrow> exn + row" where
  "first_row rows = (case rows of [] \<Rightarrow> Inl (Exn IndexError ''list index out of range'') | r # _ \<Rightarrow> Inr r)"

definition row_get :: "row \<Rightarrow> nat \<Rightarrow> exn + val" where
  "row_get r i = (if i < length r then Inr (snd (r ! i)) else Inl (Exn IndexError ''tuple index out of range''))"

fun first_cells :: "row list \<Rightarrow> exn + val list" where
  "first_cells [] = Inr []"
| "first_cells (r # rs) = (case row_get r 0 of Inl e \<Rightarrow> Inl e
     | Inr v \<Rightarrow> (case first_cells rs of Inl e \<Rightarrow> Inl e | Inr vs \<Rightarrow> Inr (v # vs)))"


section \<open>Catalog inspector\<close>



definition ddl_query :: "string \<Rightarrow> string \<Rightarrow> string \<Rightarrow> string" where
  "ddl_query db schema table = ''SELECT GET_DDL('' @ sq ''TABLE'' @ '', '' @ sq (fq_name db schema table) @ '')''"

definition get_table_ddl :: "env \<Rightarrow> session \<Rightarrow> string \<Rightarrow> string \<Rightarrow> string \<Rightarrow> val io" where
  "get_table_ddl env sess db schema table =
     io_bind (sql_collect env sess (ddl_query db schema table))
       (\<lambda>rows. io_bind (io_lift (first_row rows)) (\<lambda>r. io_lift (row_get r 0)))"

definition columns_query :: "string \<Rightarrow> string \<Rightarrow> string \<Rightarrow> string" where
  "columns_query db schema table =
     nl @ ''    SELECT COLUMN_NAME'' @ nl
     @ ''    FROM '' @ dq db @ ''.INFORMATION_SCHEMA.COLUMNS'' @ nl
     @ ''    WHERE TABLE_SCHEMA = '' @ sq schema @ '' AND TABLE_NAME = '' @ sq table @ nl
     @ ''    ORDER BY ORDINAL_POSITION;'' @ nl
     @ ''    ''"

definition get_table_columns :: "env \<Rightarrow> session \<Rightarrow> string \<Rightarrow> string \<Rightarrow> string \<Rightarrow> val list io" where
  "get_table_columns env sess db schema table =
     io_bind (sql_collect env sess (columns_query db schema table))
       (\<lambda>rows. io_lift (first_cells rows))"

definition count_query :: "string \<Rightarrow> string \<Rightarrow> string \<Rightarrow> string" where
  "count_query db schema table = ''SELECT COUNT(*) FROM '' @ fq_name db schema table"

definition rowcount :: "env \<Rightarrow> session \<Rightarrow> string \<Rightarrow> string \<Rightarrow> string \<Rightarrow> val io" where
  "rowcount env sess db schema table =
     io_bind (sql_collect env sess (count_query db schema table))
       (\<lambda>rows. io_bind (io_lift (first_row rows)) (\<lambda>r. io_lift (row_get r 0)))"

section \<open>DDL rewriter\<close>

text \<open>
  The three \<^verbatim>\<open>re.sub\<close> calls of \<^verbatim>\<open>rewrite_table_ddl\<close>, each a left-to-right scan for
  non-overlapping matches. All three patterns match case-insensitively.
\<close>

text \<open>Whether the text \<open>s\<close> starts with the literal \<open>p\<close>, letters compared without case.\<close>

fun ci_startswith :: "string \<Rightarrow> string \<Rightarrow> bool" where
  "ci_startswith s [] = True"
| "ci_startswith [] (p # ps) = False"
| "ci_startswith (c # cs) (p # ps) = (if lower_char c = lower_char p then ci_startswith cs ps else False)"

definition is_word_char :: "char \<Rightarrow> bool" where
  "is_word_char c = (c \<in> set (ascii_lowercase @ ascii_uppercase @ ''0123456789_''))"

definition is_space :: "char \<Rightarrow> bool" where
  "is_space c = (c \<in> set [CHR 0x09, CHR 0x0A, CHR 0x0B, CHR 0x0C, CHR 0x0D,
     CHR 0x1C, CHR 0x1D, CHR 0x1E, CHR 0x1F, CHR 0x20])"

text \<open>
  The first pattern at the head of \<open>s\<close>: the literal \<^verbatim>\<open>"db"."schema"."\<close>, a longest
  non-empty run of characters other than the double quote, and a closing double quote.
  The result is the object name and the text after the match.
\<close>

definition match_object_ref :: "string \<Rightarrow> string \<Rightarrow> (string \<times> string) option" where
  "match_object_ref lit s =
     (if ci_startswith s lit then
        (let rest = drop (length lit) s;
             name = takeWhile (\<lambda>c. c \<noteq> CHR 0x22) rest;
             after = dropWhile (\<lambda>c. c \<noteq> CHR 0x22) rest
         in if name \<noteq> [] \<and> after \<noteq> [] then Some (name, tl after) else None)
      else None)"

lemma match_object_ref_shorter:
  "match_object_ref lit s = Some (name, rest) \<Longrightarrow> length rest < length s"
proof -
  assume a: "match_object_ref lit s = Some (name, rest)"
  let ?r = "drop (length lit) s"
  from a have n: "takeWhile (\<lambda>c. c \<noteq> CHR 0x22) ?r \<noteq> []"
    and r: "rest = tl (dropWhile (\<lambda>c. c \<noteq> CHR 0x22) ?r)"
    by (auto simp: match_object_ref_def Let_def split: if_splits)
  have "length (dropWhile (\<lambda>c. c \<noteq> CHR 0x22) ?r) \<le> length ?r"
    by (rule length_dropWhile_le)
  moreover from n have "?r \<noteq> []" by auto
  ultimately show ?thesis using r by (cases s) auto
qed

function sub_object_refs :: "string \<Rightarrow> string \<Rightarrow> string \<Rightarrow> string" where
  "sub_object_refs lit repl [] = []"
| "sub_object_refs lit repl (c # cs) =
     (case match_object_ref lit (c # cs) of
        Some (name, rest) \<Rightarrow> repl @ dq name @ sub_object_refs lit repl rest
      | None \<Rightarrow> c # sub_object_refs lit repl cs)"
  by pat_completeness auto
termination
  by (relation "measure (\<lambda>(lit, repl, s). length s)") (auto dest: match_object_ref_shorter)

text \<open>
  The second pattern, \<^verbatim>\<open>\bCREATE TABLE\b\<close>; \<open>prev\<close> is the character of the
  scanned text before the head of \<open>s\<close>, if any.
\<close>

definition match_create_table :: "char option \<Rightarrow> string \<Rightarrow> bool" where
  "match_create_table prev s =
     (if ci_startswith s ''CREATE TABLE'' then
        (if (case prev of None \<Rightarrow> True | Some p \<Rightarrow> \<not> is_word_char p)
         then (case drop 12 s of [] \<Rightarrow> True | d # _ \<Rightarrow> \<not> is_word_char d)
         else False)
      else False)"

function sub_create_table :: "char option \<Rightarrow> string \<Rightarrow> string" where
  "sub_create_table prev [] = []"
| "sub_create_table prev (c # cs) =
     (if match_create_table prev (c # cs)
      then ''CREATE OR REPLACE TABLE'' @ sub_create_table (Some ((c # cs) ! 11)) (drop 12 (c # cs))
      else c # sub_create_table (Some c) cs)"
  by pat_completeness auto
termination
  by (relation "measure (\<lambda>(prev, s). length s)") auto

text \<open>
  The third pattern, \<^verbatim>\<open>COMMENT\s*=\s*'.*?'\<close> with DOTALL: the lazy body ends at
  the first single quote after the opening one. The result is the text after the match.
\<close>

definition match_comment :: "string \<Rightarrow> string option" where
  "match_comment s =
     (if ci_startswith s ''COMMENT'' then
        (case dropWhile is_space (drop 7 s) of
           [] \<Rightarrow> None
         | e # r1 \<Rightarrow>
             if e = CHR ''='' then
               (case dropWhile is_space r1 of
                  [] \<Rightarrow> None
                | q # r2 \<Rightarrow>
                    if q = CHR 0x27 then
                      (case dropWhile (\<lambda>c. c \<noteq> CHR 0x27) r2 of
                         [] \<Rightarrow> None
                       | q2 # r3 \<Rightarrow> Some r3)
                    else None)
             else None)
      else None)"

lemma match_comment_shorter:
  "match_comment s = Some rest \<Longrightarrow> length rest < length s"
proof -
  assume a: "match_comment s = Some rest"
  then obtain e r1 q r2 q2 where
    1: "dropWhile is_space (drop 7 s) = e # r1" and
    2: "dropWhile is_space r1 = q # r2" and
    3: "dropWhile (\<lambda>c. c \<noteq> CHR 0x27) r2 = q2 # rest"
    by (auto simp: match_comment_def split: if_splits list.splits)
  have "length (e # r1) \<le> length (drop 7 s)"
    using length_dropWhile_le [of is_space "drop 7 s"] 1 by simp
  moreover have "length (q # r2) \<le> length r1"
    using length_dropWhile_le [of is_space r1] 2 by simp
  moreover have "length (q2 # rest) \<le> length r2"
    using length_dropWhile_le [of "\<lambda>c. c \<noteq> CHR 0x27" r2] 3 by simp
  ultimately show ?thesis by simp
qed

function sub_comments :: "string \<Rightarrow> string" where
  "sub_comments [] = []"
| "sub_comments (c # cs) =
     (case match_comment (c # cs) of
        Some rest \<Rightarrow> sub_comments rest
      | None \<Rightarrow> c # sub_comments cs)"
  by pat_completeness auto
termination
  by (relation "measure length") (auto dest: match_comment_shorter)

definition rewrite_table_ddl :: "string \<Rightarrow> string \<Rightarrow> string \<Rightarrow> string \<Rightarrow> string \<Rightarrow> string" where
  \<open>rewrite_table_ddl ddl src_db src_schema tgt_db tgt_schema =
     (let ddl2 = sub_object_refs (dq src_db @ ''.'' @ dq src_schema @ ''."'')
                   (dq tgt_db @ ''.'' @ dq tgt_schema @ ''.'') ddl;
          ddl2 = sub_create_table None ddl2;
          ddl2 = sub_comments ddl2
      in ddl2)\<close>

text \<open>\<^verbatim>\<open>re.sub\<close> on a value that is not a string raises TypeError.\<close>

fun rewrite_table_ddl_val :: "val \<Rightarrow> string \<Rightarrow> string \<Rightarrow> string \<Rightarrow> string \<Rightarrow> exn + string" where
  "rewrite_table_ddl_val (VStr ddl) src_db src_schema tgt_db tgt_schema =
     Inr (rewrite_table_ddl ddl src_db src_schema tgt_db tgt_schema)"
| "rewrite_table_ddl_val v src_db src_schema tgt_db tgt_schema =
     Inl (Exn TypeError ''expected string or bytes-like object'')"


section \<open>Grants and ownership\<close>

fun index_of :: "'a \<Rightarrow> 'a list \<Rightarrow> nat option" where
  "index_of x [] = None"
| "index_of x (y # ys) = (if x = y then Some 0 else map_option Suc (index_of x ys))"

definition owner_query :: "string \<Rightarrow> string \<Rightarrow> string \<Rightarrow> string" where
  "owner_query db schema table = ''SHOW TABLES LIKE '' @ sq table @ '' IN SCHEMA '' @ dq db @ ''.'' @ dq schema"

definition show_table_owner :: "env \<Rightarrow> session \<Rightarrow> string \<Rightarrow> string \<Rightarrow> string \<Rightarrow> val io" where
  "show_table_owner env sess db schema table =
     io_bind (sql_collect env sess (owner_query db schema table))
       (\<lambda>rows. case rows of
           [] \<Rightarrow> io_return VNone
         | r # _ \<Rightarrow>
            (case index_of ''owner'' (map (\<lambda>(c, v). py_lower c) r) of
               None \<Rightarrow> io_return VNone
             | Some owner_idx \<Rightarrow> io_lift (row_get r owner_idx)))"

text \<open>\<^verbatim>\<open>cols.index(name)\<close> raises ValueError when the name is absent.\<close>

definition col_idx :: "string list \<Rightarrow> string \<Rightarrow> exn + nat" where
  "col_idx cols name = (case index_of name cols of
     None \<Rightarrow> Inl (Exn ValueError (sq name @ '' is not in list''))
   | Some i \<Rightarrow> Inr i)"

definition row_field :: "string list \<Rightarrow> row \<Rightarrow> string \<Rightarrow> val io" where
  "row_field cols r name = io_bind (io_lift (col_idx cols name)) (\<lambda>i. io_lift (row_get r i))"

type_synonym grant = "val \<times> val"

text \<open>The loop of \<^verbatim>\<open>fetch_role_grants_on_table\<close> over the rows, \<open>grants\<close> the accumulator.\<close>

fun fetch_grant_rows :: "string list \<Rightarrow> string \<Rightarrow> string \<Rightarrow> row list \<Rightarrow> grant list \<Rightarrow> grant list io" where
  "fetch_grant_rows cols schema table [] grants = io_return grants"
| "fetch_grant_rows cols schema table (r # rs) grants =
     io_bind
       (io_try
          (io_bind (row_field cols r ''granted_to'') (\<lambda>granted_to.
           io_bind (row_field cols r ''grantee_name'') (\<lambda>grantee.
           io_bind (row_field cols r ''privilege'') (\<lambda>privilege.
             if granted_to = VStr ''ROLE'' then io_return (grants @ [(grantee, privilege)])
             else io_then
               (logging LogWarning (''Skipping non-ROLE grant on '' @ schema @ ''.'' @ table @ '': ''
                   @ py_str granted_to @ '' '' @ py_str grantee @ '' '' @ py_str privilege))
               (io_return grants)))))
          (\<lambda>e. io_return grants))
       (\<lambda>grants'. fetch_grant_rows cols schema table rs grants')"

definition grants_query :: "string \<Rightarrow> string \<Rightarrow> string \<Rightarrow> string" where
  "grants_query db schema table = ''SHOW GRANTS ON TABLE '' @ fq_name db schema table"

definition fetch_role_grants_on_table :: "env \<Rightarrow> session \<Rightarrow> string \<Rightarrow> string \<Rightarrow> string \<Rightarrow> grant list io" where
  "fetch_role_grants_on_table env sess db schema table =
     io_bind (sql_collect env sess (grants_query db schema table))
       (\<lambda>rs. let cols = (case rs of [] \<Rightarrow> [] | r # _ \<Rightarrow> map (\<lambda>(c, v). py_lower c) r)
              in fetch_grant_rows cols schema table rs [])"

definition create_role_sql :: "val \<Rightarrow> string" where
  "create_role_sql role = ''CREATE ROLE IF NOT EXISTS '' @ dq (py_str role)"

definition ensure_role :: "env \<Rightarrow> session \<Rightarrow> val \<Rightarrow> unit io" where
  "ensure_role env sess role = sql_exec env sess (create_role_sql role)"

definition grant_sql :: "string \<Rightarrow> string \<Rightarrow> string \<Rightarrow> val \<Rightarrow> val \<Rightarrow> string" where
  "grant_sql db schema table role priv =
     ''GRANT '' @ py_str priv @ '' ON TABLE '' @ fq_name db schema table @ '' TO ROLE '' @ dq (py_str role)"

definition ownership_sql :: "string \<Rightarrow> string \<Rightarrow> string \<Rightarrow> val \<Rightarrow> string" where
  "ownership_sql db schema table owner_role =
     ''GRANT OWNERSHIP ON TABLE '' @ fq_name db schema table @ '' TO ROLE '' @ dq (py_str owner_role)
       @ '' REVOKE CURRENT GRANTS''"

definition grant_warning :: "string \<Rightarrow> string \<Rightarrow> val \<Rightarrow> val \<Rightarrow> exn \<Rightarrow> string" where
  "grant_warning schema table role priv e =
     ''Failed to grant '' @ py_str priv @ '' on '' @ schema @ ''.'' @ table @ '' to '' @ py_str role
       @ '': '' @ str_exn e"

definition ownership_warning :: "string \<Rightarrow> string \<Rightarrow> val \<Rightarrow> exn \<Rightarrow> string" where
  "ownership_warning schema table owner_role e =
     ''Failed to transfer ownership of '' @ schema @ ''.'' @ table @ '' to '' @ py_str owner_role
       @ '': '' @ str_exn e"

fun apply_role_grants :: "env \<Rightarrow> session \<Rightarrow> string \<Rightarrow> string \<Rightarrow> string \<Rightarrow> grant list \<Rightarrow> unit io" where
  "apply_role_grants env sess db schema table [] = io_return ()"
| "apply_role_grants env sess db schema table ((role, priv) # gs) =
     io_then (ensure_role env sess role)
    (io_then
       (io_try
          (sql_exec env sess (grant_sql db schema table role priv))
          (\<lambda>e. if py_in ''already exists'' (py_lower (str_exn e)) \<or> py_in ''dependent grant'' (py_lower (str_exn e))
                then io_return ()
                else logging LogWarning (grant_warning schema table role priv e)))
       (apply_role_grants env sess db schema table gs))"

definition transfer_ownership :: "env \<Rightarrow> session \<Rightarrow> string \<Rightarrow> string \<Rightarrow> string \<Rightarrow> val \<Rightarrow> unit io" where
  "transfer_ownership env sess db schema table owner_role =
     io_then (ensure_role env sess owner_role)
       (io_try
          (sql_exec env sess (ownership_sql db schema table owner_role))
          (\<lambda>e. if py_in ''already owns'' (py_lower (str_exn e))
                then io_return ()
                else logging LogWarning (ownership_warning schema table owner_role e)))"


section \<open>The per-table pipeline of \<^verbatim>\<open>migrate_tables_with_user_stage\<close>\<close>

datatype status = OK | OK_EMPTY | NO_COLUMNS | ROWCOUNT_MISMATCH | ERROR

type_synonym outcome = "string \<times> val \<times> val \<times> status"

record mig =
  source_db :: string
  source_schema :: string
  target_db :: string
  target_schema :: string
  base_tmp_dir :: string

definition FILE_FORMAT :: string where
  \<open>FILE_FORMAT = ''TYPE=CSV FIELD_DELIMITER='' @ sq '','' @ '' RECORD_DELIMITER='' @ sq [CHR 0x5C, CHR ''n'']
     @ '' PARSE_HEADER=TRUE FIELD_OPTIONALLY_ENCLOSED_BY='' @ sq ''"''
     @ '' NULL_IF=('' @ sq ''NULL'' @ '', '' @ sq ''null'' @ '', '' @ sq [] @ '') EMPTY_FIELD_AS_NULL=TRUE ESCAPE_UNENCLOSED_FIELD=''
     @ sq [CHR 0x5C, CHR 0x5C]\<close>

fun list_patterns :: "env \<Rightarrow> session \<Rightarrow> string \<Rightarrow> string list \<Rightarrow> val list io" where
  "list_patterns env sess sp [] =
     io_then (logging LogWarning (''Could not find any files for subpath: '' @ sp)) (io_return [])"
| "list_patterns env sess sp (pattern # ps) =
     io_bind
       (io_try
          (io_bind (sql_collect env sess (''LIST '' @ pattern)) (\<lambda>rows.
             if rows \<noteq> [] then io_bind (io_lift (first_cells rows)) (\<lambda>fs. io_return (Some fs))
             else io_return None))
          (\<lambda>e. io_return None))
       (\<lambda>found. case found of Some fs \<Rightarrow> io_return fs | None \<Rightarrow> list_patterns env sess sp ps)"

definition list_user_stage :: "env \<Rightarrow> session \<Rightarrow> string \<Rightarrow> val list io" where
  "list_user_stage env sess subpath =
     (let sp = py_strip CHR ''/'' subpath
      in list_patterns env sess sp [''@~/'' @ sp @ ''*'', ''@~/'' @ sp @ ''/'', ''@~/'' @ sp])"

definition clean_stage_path :: "env \<Rightarrow> session \<Rightarrow> string \<Rightarrow> unit io" where
  "clean_stage_path env sess subpath =
     io_try (sql_exec env sess (''REMOVE @~/'' @ subpath @ ''/'')) (\<lambda>e. io_return ())"

definition pad2 :: "nat \<Rightarrow> string" where
  "pad2 n = (if n < 10 then CHR ''0'' # str_nat n else str_nat n)"

text \<open>\<^verbatim>\<open>strftime('%Y%m%dT%H%M%SZ')\<close>; the C library does not pad \<^verbatim>\<open>%Y\<close>.\<close>

definition strftime :: "datetime \<Rightarrow> string" where
  "strftime d = str_nat (year d) @ pad2 (month d) @ pad2 (day d) @ ''T''
     @ pad2 (hour d) @ pad2 (minute d) @ pad2 (second d) @ ''Z''"

definition src_stage_subpath :: "string \<Rightarrow> string \<Rightarrow> string" where
  "src_stage_subpath timestamp table = ''migrate_export_'' @ timestamp @ ''_'' @ table"

definition tgt_stage_subpath :: "string \<Rightarrow> string \<Rightarrow> string" where
  "tgt_stage_subpath timestamp table = ''migrate_import_'' @ timestamp @ ''_'' @ table"

definition path_join :: "string \<Rightarrow> string \<Rightarrow> string" where
  "path_join a b = (if startswith b ''/'' then b
     else if a = [] \<or> endswith a ''/'' then a @ b
     else a @ ''/'' @ b)"

text \<open>Step 1: create or replace the target table from the rewritten source DDL.\<close>

definition create_target :: "env \<Rightarrow> mig \<Rightarrow> string \<Rightarrow> val list \<Rightarrow> unit io" where
  "create_target env m table src_columns =
     io_bind (get_table_ddl env Src (source_db m) (source_schema m) table) (\<lambda>ddl_src.
     io_bind (io_lift (rewrite_table_ddl_val ddl_src (source_db m) (source_schema m) (target_db m) (target_schema m))) (\<lambda>ddl_tgt.
     io_then (sql_exec env Tgt ddl_tgt)
    (io_bind (get_table_columns env Tgt (target_db m) (target_schema m) table) (\<lambda>tgt_columns.
       if src_columns \<noteq> tgt_columns then
         io_then (logging LogWarning ''Column mismatch between source and target:'')
        (io_then (logging LogWarning (''Source: '' @ py_repr_list (map py_repr src_columns)))
                 (logging LogWarning (''Target: '' @ py_repr_list (map py_repr tgt_columns))))
       else io_return ()))))"

text \<open>Capture of the source owner and grants for the replay after the load.\<close>

definition capture_grants :: "env \<Rightarrow> mig \<Rightarrow> string \<Rightarrow> (val \<times> grant list) io" where
  "capture_grants env m table =
     io_bind (show_table_owner env Src (source_db m) (source_schema m) table) (\<lambda>owner.
     io_bind (fetch_role_grants_on_table env Src (source_db m) (source_schema m) table) (\<lambda>role_grants.
       io_return (py_or owner (VStr ''ACCOUNTADMIN''), role_grants)))"

definition unload_sql :: "mig \<Rightarrow> string \<Rightarrow> val list \<Rightarrow> string \<Rightarrow> string" where
  "unload_sql m table src_columns subpath =
     (let column_list = join_with '', '' (map (\<lambda>col. dq (py_str col)) src_columns)
      in nl @ ''                COPY INTO @~/'' @ subpath @ nl
         @ ''                FROM (SELECT '' @ column_list @ '' FROM '' @ fq_name (source_db m) (source_schema m) table @ '')'' @ nl
         @ ''                FILE_FORMAT=('' @ FILE_FORMAT @ '')'' @ nl
         @ ''                HEADER=TRUE'' @ nl
         @ ''                OVERWRITE=TRUE'' @ nl
         @ ''                SINGLE=TRUE'' @ nl
         @ ''            '')"

text \<open>
  Steps 2 and 3: derive the staging prefixes from the clock, clean both, unload to the source
  stage, and list the whole user stage for the debug log. The result is the timestamp.
\<close>

definition export_table :: "env \<Rightarrow> mig \<Rightarrow> string \<Rightarrow> val list \<Rightarrow> string io" where
  "export_table env m table src_columns =
     io_bind (utcnow env) (\<lambda>now.
       let timestamp = strftime now
       in io_then (clean_stage_path env Src (src_stage_subpath timestamp table))
         (io_then (clean_stage_path env Tgt (tgt_stage_subpath timestamp table))
         (io_then (sql_exec env Src (unload_sql m table src_columns (src_stage_subpath timestamp table)))
         (io_then (io_try (sql_exec env Src ''LIST @~'') (\<lambda>e. io_return ()))
                  (io_return timestamp)))))"

fun remove_each :: "env \<Rightarrow> string list \<Rightarrow> unit io" where
  "remove_each env [] = io_return ()"
| "remove_each env (f # fs) = io_then (os_remove env f) (remove_each env fs)"

fun get_each :: "env \<Rightarrow> string \<Rightarrow> val list \<Rightarrow> unit io" where
  "get_each env local_dir [] = io_return ()"
| "get_each env local_dir (VStr stage_file # fs) =
     (let full_stage_path = (if \<not> startswith stage_file ''@~'' then ''@~/'' @ stage_file else stage_file)
      in io_then
           (io_try (sql_exec env Src (''GET '' @ sq full_stage_path @ '' '' @ sq (''file://'' @ local_dir)))
              (\<lambda>file_err. logging LogError (''Failed to GET file '' @ full_stage_path @ '': '' @ str_exn file_err)))
           (get_each env local_dir fs))"
| "get_each env local_dir (v # fs) =
     io_raise (Exn AttributeError ''object has no attribute startswith'')"

fun getsize_each :: "env \<Rightarrow> string \<Rightarrow> string list \<Rightarrow> int list io" where
  "getsize_each env local_dir [] = io_return []"
| "getsize_each env local_dir (f # fs) =
     io_bind (os_getsize env (path_join local_dir f)) (\<lambda>n.
     io_bind (getsize_each env local_dir fs) (\<lambda>ns. io_return (n # ns)))"

text \<open>Step 4: download the exported files into a local directory of their own.\<close>

definition download :: "env \<Rightarrow> mig \<Rightarrow> string \<Rightarrow> string \<Rightarrow> val list \<Rightarrow> (string \<times> string list) io" where
  "download env m table timestamp files =
     (let local_dir = path_join (base_tmp_dir m) (''table_'' @ table @ ''_'' @ timestamp)
      in io_then (os_makedirs env local_dir)
        (io_bind (glob_glob env (path_join local_dir ''*'')) (\<lambda>old.
         io_then (remove_each env old)
        (io_then
           (io_try (sql_exec env Src (''GET @~/'' @ src_stage_subpath timestamp table @ ''* ''
                       @ sq (''file://'' @ local_dir)))
              (\<lambda>e. io_then (logging LogError (''Wildcard GET failed: '' @ str_exn e))
                            (get_each env local_dir files)))
        (io_bind (os_listdir env local_dir) (\<lambda>downloaded_files.
           if downloaded_files = [] then
             io_raise (Exn RuntimeError ''Failed to download any files from stage'')
           else
             io_bind (getsize_each env local_dir downloaded_files) (\<lambda>sizes.
             io_bind (getsize_each env local_dir downloaded_files) (\<lambda>sizes2.
               io_return (local_dir, downloaded_files)))))))))"

fun put_each :: "env \<Rightarrow> string \<Rightarrow> string \<Rightarrow> string list \<Rightarrow> unit io" where
  "put_each env subpath local_dir [] = io_return ()"
| "put_each env subpath local_dir (local_file # fs) =
     (let local_file_path = path_join local_dir local_file
      in io_bind (os_path_exists env local_file_path) (\<lambda>ex.
           if ex then
             io_then (sql_exec env Tgt (''PUT '' @ sq (''file://'' @ local_file_path) @ '' @~/'' @ subpath
                        @ ''/ OVERWRITE=TRUE AUTO_COMPRESS=FALSE''))
                     (put_each env subpath local_dir fs)
           else io_raise (Exn RuntimeError (''Local file not found: '' @ local_file_path))))"

text \<open>Step 5: upload the downloaded files to the target stage and check they arrived.\<close>

definition upload :: "env \<Rightarrow> string \<Rightarrow> string \<Rightarrow> string \<Rightarrow> string list \<Rightarrow> unit io" where
  "upload env table timestamp local_dir downloaded_files =
     io_then (put_each env (tgt_stage_subpath timestamp table) local_dir downloaded_files)
       (io_bind (list_user_stage env Tgt (tgt_stage_subpath timestamp table)) (\<lambda>tgt_files.
          if tgt_files = [] then
            io_raise (Exn RuntimeError (''No files found in target stage @~/'' @ tgt_stage_subpath timestamp table @ ''/''))
          else io_return ()))"

definition copy_sql :: "mig \<Rightarrow> string \<Rightarrow> string \<Rightarrow> string" where
  "copy_sql m table subpath =
     nl @ ''                COPY INTO '' @ fq_name (target_db m) (target_schema m) table @ nl
     @ ''                FROM @~/'' @ subpath @ ''/'' @ nl
     @ ''                FILE_FORMAT=('' @ FILE_FORMAT @ '')'' @ nl
     @ ''                MATCH_BY_COLUMN_NAME=CASE_INSENSITIVE'' @ nl
     @ ''                ON_ERROR='' @ sq ''ABORT_STATEMENT'' @ nl
     @ ''                PURGE=TRUE'' @ nl
     @ ''            ''"

text \<open>Step 6: load from the target stage into the target table.\<close>

definition load :: "env \<Rightarrow> mig \<Rightarrow> string \<Rightarrow> string \<Rightarrow> unit io" where
  "load env m table timestamp = sql_exec env Tgt (copy_sql m table (tgt_stage_subpath timestamp table))"

text \<open>Step 7: replay the captured grants and owner on the target, inside its own handler.\<close>

definition replay_warning :: "string \<Rightarrow> exn \<Rightarrow> string" where
  "replay_warning table e = ''Non-critical grant/ownership error for '' @ table @ '': '' @ str_exn e"

definition replay_grants :: "env \<Rightarrow> mig \<Rightarrow> string \<Rightarrow> val \<Rightarrow> grant list \<Rightarrow> unit io" where
  "replay_grants env m table owner_role role_grants =
     io_try
       (io_then (if role_grants \<noteq> [] then apply_role_grants env Tgt (target_db m) (target_schema m) table role_grants
                 else io_return ())
                (if truthy owner_role then transfer_ownership env Tgt (target_db m) (target_schema m) table owner_role
                 else io_return ()))
       (\<lambda>e. logging LogWarning (replay_warning table e))"

text \<open>Step 8: read the target row count and compare it with the count taken in step 0.\<close>

definition validate :: "env \<Rightarrow> mig \<Rightarrow> string \<Rightarrow> val \<Rightarrow> outcome io" where
  "validate env m table src_cnt_before =
     (let s_cnt = src_cnt_before
      in io_bind (rowcount env Tgt (target_db m) (target_schema m) table) (\<lambda>t_cnt.
           let status = (if s_cnt = t_cnt then OK else ROWCOUNT_MISMATCH)
           in io_then
                (if status = ROWCOUNT_MISMATCH then
                   io_bind (io_lift (fmt_comma s_cnt)) (\<lambda>s_txt.
                   io_bind (io_lift (fmt_comma t_cnt)) (\<lambda>t_txt.
                     logging LogError (''CRITICAL: Row count mismatch for '' @ table)))
                 else io_bind (io_lift (fmt_comma t_cnt)) (\<lambda>t_txt. io_return ()))
                (io_return (table, s_cnt, t_cnt, status))))"

text \<open>The error raised when the export left no file in the source stage.\<close>

definition unloaded_nothing :: "string \<Rightarrow> string \<Rightarrow> val \<Rightarrow> exn" where
  "unloaded_nothing timestamp table src_cnt_before =
     Exn RuntimeError (''Unloaded 0 files at @~/'' @ src_stage_subpath timestamp table
        @ ''% but source rowcount is '' @ py_str src_cnt_before @ ''.'')"

text \<open>
  The pipeline after the export: list the exported files, fail when there are none,
  then download, upload, load, replay grants and validate.
\<close>

definition transfer_and_load :: "env \<Rightarrow> mig \<Rightarrow> string \<Rightarrow> val \<Rightarrow> val \<Rightarrow> grant list \<Rightarrow> string \<Rightarrow> outcome io" where
  "transfer_and_load env m table src_cnt_before owner_role role_grants timestamp =
     io_bind (list_user_stage env Src (src_stage_subpath timestamp table)) (\<lambda>files.
       if files = [] then
         io_raise (unloaded_nothing timestamp table src_cnt_before)
       else
         io_bind (download env m table timestamp files) (\<lambda>(local_dir, downloaded_files).
         io_then (upload env table timestamp local_dir downloaded_files)
        (io_then (load env m table timestamp)
        (io_then (replay_grants env m table owner_role role_grants)
                 (validate env m table src_cnt_before)))))"

text \<open>The body of the \<^verbatim>\<open>try\<close> block for one table.\<close>

definition table_pipeline :: "env \<Rightarrow> mig \<Rightarrow> string \<Rightarrow> outcome io" where
  "table_pipeline env m table =
     io_bind (rowcount env Src (source_db m) (source_schema m) table) (\<lambda>src_cnt_before.
     io_bind (get_table_columns env Src (source_db m) (source_schema m) table) (\<lambda>src_columns.
       if src_columns = [] then io_return (table, VInt (- 1), VInt (- 1), NO_COLUMNS)
       else
         io_bind (io_lift (fmt_comma src_cnt_before)) (\<lambda>cnt_txt.
         io_then (create_target env m table src_columns)
        (io_bind (capture_grants env m table) (\<lambda>(owner_role, role_grants).
           if src_cnt_before = VInt 0 then io_return (table, VInt 0, VInt 0, OK_EMPTY)
           else
             io_bind (export_table env m table src_columns) (\<lambda>timestamp.
               transfer_and_load env m table src_cnt_before owner_role role_grants timestamp))))))"

text \<open>One iteration of the loop: the pipeline, and the handler at the table boundary.\<close>

definition migrate_one :: "env \<Rightarrow> mig \<Rightarrow> string \<Rightarrow> event list \<Rightarrow> outcome \<times> event list" where
  "migrate_one env m table log =
     (case table_pipeline env m table log of
        (Inr out, log1) \<Rightarrow> (out, log1)
      | (Inl e, log1) \<Rightarrow>
          ((table, VInt (- 1), VInt (- 1), ERROR),
           log1 @ [Logged LogError (''Failed migrating '' @ source_schema m @ ''.'' @ table @ '': '' @ str_exn e)]))"

fun migrate_loop :: "env \<Rightarrow> mig \<Rightarrow> string list \<Rightarrow> outcome list \<Rightarrow> event list \<Rightarrow> outcome list \<times> event list" where
  "migrate_loop env m [] summary log = (summary, log)"
| "migrate_loop env m (table # tables) summary log =
     (case migrate_one env m table log of
        (out, log1) \<Rightarrow> migrate_loop env m tables (summary @ [out]) log1)"

definition migrate_tables_with_user_stage :: "env \<Rightarrow> mig \<Rightarrow> string list \<Rightarrow> outcome list io" where
  "migrate_tables_with_user_stage env m tables =
     io_then
       (io_try
          (io_then (sql_exec env Tgt (''USE DATABASE '' @ dq (target_db m)))
                   (sql_exec env Tgt (''USE SCHEMA '' @ dq (target_db m) @ ''.'' @ dq (target_schema m))))
          (\<lambda>e. io_raise (Exn RuntimeError (''Failed to set target session context: '' @ str_exn e))))
       (\<lambda>log. case migrate_loop env m tables [] log of (summary, log1) \<Rightarrow> (Inr summary, log1))"


section \<open>The run: connection gate, pre-flight check, migration, report\<close>

record conn_cfg =
  cfg_account :: string
  cfg_user :: string
  cfg_role :: string
  cfg_warehouse :: string

record config =
  USERNAME :: string
  SOURCE :: conn_cfg
  TARGET :: conn_cfg
  SOURCE_DB :: string
  SOURCE_SCHEMA :: string
  TABLES :: "string list"
  TARGET_DB :: string
  TARGET_SCHEMA :: string
  LOCAL_BASE :: "string option"




















section \<open>A simulated world for concrete runs\<close>

text \<open>
  A small deterministic world, used to run the model on concrete inputs: the source holds
  the tables of \<open>w_catalog\<close>, each with the columns \<open>w_columns\<close> and \<open>w_src_count\<close> rows;
  the target reports \<open>w_tgt_count\<close> rows; listing a stage prefix shows \<open>w_staged\<close>; a GRANT
  statement on the target answers \<open>w_grant\<close>; the clock stands at \<open>w_now\<close>; counting the rows
  of a table of \<open>w_broken\<close> fails.
\<close>

record world =
  w_catalog :: "string list"
  w_columns :: "val list"
  w_src_count :: val
  w_tgt_count :: val
  w_staged :: "string list"
  w_grant :: "exn + row list"
  w_now :: datetime
  w_broken :: "string list"

definition sim_sql :: "world \<Rightarrow> session \<Rightarrow> string \<Rightarrow> exn + row list" where
  "sim_sql w sess q =
     (if startswith q ''SELECT COUNT'' then
        (if list_ex (\<lambda>t. endswith q (dq t)) (w_broken w)
         then Inl (Exn SnowparkSQLException ''SQL compilation error: object does not exist'')
         else Inr [[(''COUNT(*)'', if sess = Src then w_src_count w else w_tgt_count w)]])
      else if startswith q (nl @ ''    SELECT COLUMN_NAME'') then
        Inr (map (\<lambda>c. [(''COLUMN_NAME'', c)]) (w_columns w))
      else if startswith q (nl @ ''    SELECT TABLE_NAME'') then
        Inr (map (\<lambda>t. [(''TABLE_NAME'', VStr t)]) (w_catalog w))
      else if startswith q ''SELECT GET_DDL'' then
        Inr [[(''GET_DDL'', VStr ''create or replace TABLE ORDERS (ID NUMBER(38,0))'')]]
      else if startswith q ''SELECT CURRENT_USER'' then
        Inr [[(''CURRENT_USER()'', VStr ''CHILTON''), (''CURRENT_ROLE()'', VStr ''ACCOUNTADMIN''),
              (''CURRENT_VERSION()'', VStr ''8.1.0'')]]
      else if startswith q ''SHOW WAREHOUSES'' then Inr [[(''name'', VStr ''COMPUTE_WH'')]]
      else if startswith q ''SHOW TABLES'' then Inr [[(''name'', VStr ''ORDERS''), (''owner'', VStr ''SYSADMIN'')]]
      else if startswith q ''SHOW GRANTS'' then
        Inr [[(''privilege'', VStr ''SELECT''), (''granted_to'', VStr ''ROLE''), (''grantee_name'', VStr ''ANALYST'')]]
      else if startswith q ''LIST @~/'' then Inr (map (\<lambda>f. [(''name'', VStr f)]) (w_staged w))
      else if startswith q ''GRANT '' then w_grant w
      else Inr [])"

definition sim_env :: "world \<Rightarrow> env" where
  "sim_env w = \<lparr>
     connect_resp = (\<lambda>log sess. Inr ()),
     sql_resp = (\<lambda>log sess q. sim_sql w sess q),
     utcnow_resp = (\<lambda>log. w_now w),
     makedirs_resp = (\<lambda>log p. Inr ()),
     glob_resp = (\<lambda>log p. []),
     remove_resp = (\<lambda>log p. Inr ()),
     listdir_resp = (\<lambda>log p. Inr (map (\<lambda>f. ''data_0_0_0.csv'') (w_staged w))),
     getsize_resp = (\<lambda>log p. Inr 42),
     exists_resp = (\<lambda>log p. True),
     mkdtemp_resp = (\<lambda>log pre. Inr ''/tmp/sf-migrate-x''),
     rmtree_resp = (\<lambda>log p. Inr ()) \<rparr>"

definition noon :: datetime where
  "noon = \<lparr> year = 2024, month = 5, day = 17, hour = 12, minute = 0, second = 0, microsecond = 0 \<rparr>"

definition orders_world :: world where
  "orders_world = \<lparr> w_catalog = [''ORDERS''], w_columns = [VStr ''ID''], w_src_count = VInt 3,
     w_tgt_count = VInt 3, w_staged = [''migrate_export_20240517T120000Z_ORDERS''],
     w_grant = Inr [], w_now = noon, w_broken = [] \<rparr>"

definition demo_mig :: mig where
  "demo_mig = \<lparr> source_db = ''SDB'', source_schema = ''SCH'', target_db = ''TDB'',
     target_schema = ''SCH'', base_tmp_dir = ''/tmp/x'' \<rparr>"

text \<open>A world without columns in which the table B cannot be read.\<close>

definition broken_world :: world where
  "broken_world = orders_world\<lparr>w_columns := [], w_broken := [''B'']\<rparr>"

text \<open>A world whose target refuses every GRANT because the grant is already there.\<close>

definition refusing_world :: world where
  "refusing_world = orders_world\<lparr>w_grant := Inl (Exn SnowparkSQLException ''Grant already exists'')\<rparr>"



section \<open>Reading the trace\<close>




section \<open>Basic facts about the monad\<close>

lemma io_bind_Inr:
  "io_bind m f log = (Inr y, log') \<longleftrightarrow> (\<exists>x l1. m log = (Inr x, l1) \<and> f x l1 = (Inr y, log'))"
  by (auto simp: io_bind_def split: prod.splits sum.splits)

lemma io_bind_Inl:
  "io_bind m f log = (Inl e, log') \<longleftrightarrow>
     (m log = (Inl e, log') \<or> (\<exists>x l1. m log = (Inr x, l1) \<and> f x l1 = (Inl e, log')))"
  by (auto simp: io_bind_def split: prod.splits sum.splits)

lemma io_then_Inr:
  "io_then m k log = (Inr y, log') \<longleftrightarrow> (\<exists>l1. m log = (Inr (), l1) \<and> k l1 = (Inr y, log'))"
  by (auto simp: io_then_def io_bind_Inr)

lemma io_then_Inl:
  "io_then m k log = (Inl e, log') \<longleftrightarrow>
     (m log = (Inl e, log') \<or> (\<exists>l1. m log = (Inr (), l1) \<and> k l1 = (Inl e, log')))"
  by (auto simp: io_then_def io_bind_Inl)

lemma io_return_eq: "io_return x log = (r, log') \<longleftrightarrow> r = Inr x \<and> log' = log"
  by (auto simp: io_return_def)

lemma io_raise_eq: "io_raise e log = (r, log') \<longleftrightarrow> r = Inl e \<and> log' = log"
  by (auto simp: io_raise_def)


lemma io_try_Inr:
  "io_try m h log = (Inr x, log') \<longleftrightarrow>
     (m log = (Inr x, log') \<or> (\<exists>e l1. m log = (Inl e, l1) \<and> h e l1 = (Inr x, log')))"
  by (auto simp: io_try_def split: prod.splits sum.splits)

lemma io_try_Inl:
  "io_try m h log = (Inl e', log') \<longleftrightarrow> (\<exists>e l1. m log = (Inl e, l1) \<and> h e l1 = (Inl e', log'))"
  by (auto simp: io_try_def split: prod.splits sum.splits)

lemma io_bind_InrE:
  assumes "io_bind m f log = (Inr y, log')"
  obtains x l1 where "m log = (Inr x, l1)" and "f x l1 = (Inr y, log')"
  using assms by (auto simp: io_bind_Inr)

lemma io_then_InrE:
  assumes "io_then m k log = (Inr y, log')"
  obtains l1 where "m log = (Inr (), l1)" and "k l1 = (Inr y, log')"
  using assms by (auto simp: io_then_Inr)

text \<open>Forward evaluation: when the first computation is known, the bind steps over it.\<close>

lemma io_bind_step: "m log = (Inr x, l1) \<Longrightarrow> io_bind m f log = f x l1"
  by (simp add: io_bind_def)

lemma io_then_step: "m log = (Inr (), l1) \<Longrightarrow> io_then m k log = k l1"
  by (simp add: io_then_def io_bind_def)

section \<open>What the pipeline can return\<close>

lemma validate_result:
  "validate env m table c log = (Inr out, log') \<Longrightarrow>
     \<exists>d l1. rowcount env Tgt (target_db m) (target_schema m) table log = (Inr d, l1)
       \<and> out = (table, c, d, if c = d then OK else ROWCOUNT_MISMATCH)"
  unfolding validate_def Let_def
  by (erule io_bind_InrE, erule io_then_InrE) (simp add: io_return_eq)

lemma transfer_and_load_steps:
  assumes "transfer_and_load env m table c ow gr ts log = (Inr out, log')"
  shows "\<exists>la lb lc ld d.
           load env m table ts la = (Inr (), lb)
         \<and> replay_grants env m table ow gr lb = (Inr (), lc)
         \<and> rowcount env Tgt (target_db m) (target_schema m) table lc = (Inr d, ld)
         \<and> out = (table, c, d, if c = d then OK else ROWCOUNT_MISMATCH)"
proof -
  from assms obtain files l1 where
    r: "io_bind (download env m table ts files) (\<lambda>(local_dir, downloaded_files).
         io_then (upload env table ts local_dir downloaded_files)
        (io_then (load env m table ts)
        (io_then (replay_grants env m table ow gr)
                 (validate env m table c)))) l1 = (Inr out, log')"
    unfolding transfer_and_load_def
    by (erule_tac io_bind_InrE) (simp add: io_raise_eq split: if_splits)
  from r obtain ld df l2 where
    "io_then (upload env table ts ld df)
        (io_then (load env m table ts)
        (io_then (replay_grants env m table ow gr)
                 (validate env m table c))) l2 = (Inr out, log')"
    by (erule_tac io_bind_InrE) (simp split: prod.splits)
  then obtain la lb lc where
    "load env m table ts la = (Inr (), lb)"
    "replay_grants env m table ow gr lb = (Inr (), lc)"
    "validate env m table c lc = (Inr out, log')"
    by (elim io_then_InrE)
  then show ?thesis by (blast dest: validate_result)
qed

lemma transfer_and_load_result:
  assumes "transfer_and_load env m table c ow gr ts log = (Inr out, log')"
  shows "\<exists>d. out = (table, c, d, if c = d then OK else ROWCOUNT_MISMATCH)"
  using transfer_and_load_steps [OF assms] by blast

lemma table_pipeline_result:
  "table_pipeline env m table log = (Inr out, log') \<Longrightarrow>
     out = (table, VInt (- 1), VInt (- 1), NO_COLUMNS)
     \<or> out = (table, VInt 0, VInt 0, OK_EMPTY)
     \<or> (\<exists>c d. c \<noteq> VInt 0 \<and> out = (table, c, d, if c = d then OK else ROWCOUNT_MISMATCH))"
  unfolding table_pipeline_def
  apply (erule io_bind_InrE)
  apply (erule io_bind_InrE)
  apply (simp only: io_return_eq split: if_split_asm)
   apply blast
  apply (erule io_bind_InrE)
  apply (erule io_then_InrE)
  apply (erule io_bind_InrE)
  apply (simp only: io_return_eq split: prod.splits if_split_asm)
   apply blast
  apply (erule io_bind_InrE)
  apply (drule transfer_and_load_result)
  apply blast
  done

lemma migrate_one_result:
  assumes "migrate_one env m table log = ((t, s, d, st), log')"
  shows "t = table \<and> (st = ERROR \<or> st = NO_COLUMNS \<longrightarrow> s = VInt (- 1) \<and> d = VInt (- 1))"
proof (cases "table_pipeline env m table log")
  case (Pair r l1)
  show ?thesis
  proof (cases r)
    case (Inl e)
    with Pair assms show ?thesis by (auto simp: migrate_one_def)
  next
    case (Inr out)
    with Pair assms have "out = (t, s, d, st)" by (simp add: migrate_one_def)
    with table_pipeline_result [of env m table log out l1] Pair Inr show ?thesis
      by (auto split: if_splits)
  qed
qed


lemma migrate_tables_loop:
  "migrate_tables_with_user_stage env m tables log = (Inr summary, log') \<Longrightarrow>
     \<exists>l0. migrate_loop env m tables [] l0 = (summary, log')"
  unfolding migrate_tables_with_user_stage_def
  by (erule io_then_InrE) (auto split: prod.splits)

section \<open>Unfolding sets for concrete runs\<close>

lemmas io_defs = io_return_def io_raise_def io_bind_def io_then_def io_try_def io_lift_def
  sql_collect_def sql_exec_def session_create_def utcnow_def os_makedirs_def glob_glob_def
  os_remove_def os_listdir_def os_getsize_def os_path_exists_def tempfile_mkdtemp_def
  shutil_rmtree_def logging_def

lemmas str_defs = dq_def sq_def nl_def fq_name_def endswith_def

lemmas sim_defs = sim_env_def sim_sql_def orders_world_def demo_mig_def noon_def

lemmas catalog_defs = rowcount_def get_table_columns_def get_table_ddl_def
  count_query_def columns_query_def ddl_query_def owner_query_def grants_query_def
  first_row_def row_get_def

lemmas run_defs = migrate_one_def table_pipeline_def io_defs str_defs sim_defs catalog_defs

section \<open>The trace of the catalog reads\<close>

lemma sql_collect_log: "sql_collect env s q log = (r, l1) \<Longrightarrow> l1 = log @ [Sql s q]"
  by (auto simp: sql_collect_def)

lemma rowcount_log:
  "rowcount env s db schema table log = (r, l1) \<Longrightarrow> l1 = log @ [Sql s (count_query db schema table)]"
  by (auto simp: rowcount_def io_bind_def io_lift_def sql_collect_def split: sum.splits prod.splits)

lemma get_table_columns_log:
  "get_table_columns env s db schema table log = (r, l1) \<Longrightarrow>
     l1 = log @ [Sql s (columns_query db schema table)]"
  by (auto simp: get_table_columns_def io_bind_def io_lift_def sql_collect_def split: sum.splits prod.splits)

section \<open>The loop over the tables\<close>

lemma migrate_loop_acc:
  "migrate_loop env m ts summ log =
     (summ @ fst (migrate_loop env m ts [] log), snd (migrate_loop env m ts [] log))"
proof (induction ts arbitrary: summ log)
  case Nil
  show ?case by simp
next
  case (Cons t ts)
  obtain out l1 where o: "migrate_one env m t log = (out, l1)" by (cases "migrate_one env m t log")
  show ?case
    using Cons.IH [of "summ @ [out]" l1] Cons.IH [of "[out]" l1] o by simp
qed

lemma migrate_loop_append:
  "migrate_loop env m pre [] log = (s1, l1) \<Longrightarrow> migrate_loop env m post [] l1 = (s2, l2) \<Longrightarrow>
     migrate_loop env m (pre @ post) [] log = (s1 @ s2, l2)"
proof (induction pre arbitrary: s1 log)
  case Nil
  then show ?case by simp
next
  case (Cons t ts)
  obtain out la where o: "migrate_one env m t log = (out, la)" by (cases "migrate_one env m t log")
  obtain sa lb where r: "migrate_loop env m ts [] la = (sa, lb)" by (cases "migrate_loop env m ts [] la")
  from Cons.prems(1) o r have s1: "s1 = out # sa" and lb: "lb = l1"
    using migrate_loop_acc [of env m ts "[out]" la] by auto
  from Cons.IH [of la sa] r lb Cons.prems(2)
  have "migrate_loop env m (ts @ post) [] la = (sa @ s2, l2)" by simp
  then show ?case
    using o s1 migrate_loop_acc [of env m "ts @ post" "[out]" la] by simp
qed

lemma migrate_loop_tables: "map fst (fst (migrate_loop env m ts [] log)) = ts"
proof (induction ts arbitrary: log)
  case Nil
  show ?case by simp
next
  case (Cons t ts)
  obtain out l1 where o: "migrate_one env m t log = (out, l1)" by (cases "migrate_one env m t log")
  obtain a b c d where out: "out = (a, b, c, d)" by (cases out)
  from migrate_one_result [of env m t log a b c d l1] o out have "fst out = t" by simp
  then show ?case
    using o Cons.IH [of l1] migrate_loop_acc [of env m ts "[out]" l1] by simp
qed

section \<open>Running the simulated world\<close>

lemma io_bind_split:
  "io_bind m f log = (case fst (m log) of Inl e \<Rightarrow> (Inl e, snd (m log)) | Inr x \<Rightarrow> f x (snd (m log)))"
  by (simp add: io_bind_def split: prod.splits sum.splits)

lemma io_then_split:
  "io_then m k log = (case fst (m log) of Inl e \<Rightarrow> (Inl e, snd (m log)) | Inr x \<Rightarrow> k (snd (m log)))"
  by (simp add: io_then_def io_bind_def split: prod.splits sum.splits)

lemma io_try_split:
  "io_try m h log = (case fst (m log) of Inl e \<Rightarrow> h e (snd (m log)) | Inr x \<Rightarrow> (Inr x, snd (m log)))"
  by (simp add: io_try_def split: prod.splits sum.splits)

lemmas io_splits = io_bind_split io_then_split io_try_split io_return_def io_raise_def io_lift_def logging_def

lemma sim_fst_sql_collect: "fst (sql_collect (sim_env w) s q log) = sim_sql w s q"
  by (simp add: sql_collect_def sim_env_def)

lemma sim_fst_sql_exec: "sim_sql w s q = Inr rows \<Longrightarrow> fst (sql_exec (sim_env w) s q log) = Inr ()"
  by (simp add: sql_exec_def io_splits sim_fst_sql_collect)

lemma sim_fst_sql_exec_fail: "sim_sql w s q = Inl e \<Longrightarrow> fst (sql_exec (sim_env w) s q log) = Inl e"
  by (simp add: sql_exec_def io_splits sim_fst_sql_collect)

lemma sim_sql_count:
  "w_broken w = [] \<Longrightarrow> sim_sql w s (count_query db sch t)
     = Inr [[(''COUNT(*)'', if s = Src then w_src_count w else w_tgt_count w)]]"
  by (simp add: sim_sql_def count_query_def)

lemma sim_sql_columns:
  "sim_sql w s (columns_query db sch t) = Inr (map (\<lambda>c. [(''COLUMN_NAME'', c)]) (w_columns w))"
  by (simp add: sim_sql_def columns_query_def nl_def)

lemma sim_sql_ddl:
  "sim_sql w s (ddl_query db sch t) = Inr [[(''GET_DDL'', VStr ''create or replace TABLE ORDERS (ID NUMBER(38,0))'')]]"
  by (simp add: sim_sql_def ddl_query_def nl_def)

lemma sim_sql_owner:
  "sim_sql w s (owner_query db sch t) = Inr [[(''name'', VStr ''ORDERS''), (''owner'', VStr ''SYSADMIN'')]]"
  by (simp add: sim_sql_def owner_query_def nl_def)

lemma sim_sql_grants:
  "sim_sql w s (grants_query db sch t)
     = Inr [[(''privilege'', VStr ''SELECT''), (''granted_to'', VStr ''ROLE''), (''grantee_name'', VStr ''ANALYST'')]]"
  by (simp add: sim_sql_def grants_query_def nl_def)

lemma sim_sql_ddl_text: "sim_sql w s ''create or replace TABLE ORDERS (ID NUMBER(38,0))'' = Inr []"
  by (simp add: sim_sql_def nl_def)

lemma sim_sql_list: "sim_sql w s (''LIST @~/'' @ x) = Inr (map (\<lambda>f. [(''name'', VStr f)]) (w_staged w))"
  by (simp add: sim_sql_def nl_def)

lemma sim_sql_list_all: "sim_sql w s ''LIST @~'' = Inr []"
  by (simp add: sim_sql_def nl_def)

lemma sim_sql_remove: "sim_sql w s (''REMOVE @~/'' @ x) = Inr []"
  by (simp add: sim_sql_def nl_def)

lemma sim_sql_unload: "sim_sql w s (unload_sql m t cols sub) = Inr []"
  by (simp add: sim_sql_def nl_def unload_sql_def Let_def)

lemma sim_sql_copy: "sim_sql w s (copy_sql m t sub) = Inr []"
  by (simp add: sim_sql_def nl_def copy_sql_def)

lemma sim_sql_get: "sim_sql w s (''GET '' @ x) = Inr []"
  by (simp add: sim_sql_def nl_def)

lemma sim_sql_put: "sim_sql w s (''PUT '' @ x) = Inr []"
  by (simp add: sim_sql_def nl_def)

lemma sim_sql_create: "sim_sql w s (''CREATE '' @ x) = Inr []"
  by (simp add: sim_sql_def nl_def)

lemma sim_sql_use: "sim_sql w s (''USE '' @ x) = Inr []"
  by (simp add: sim_sql_def nl_def)

lemma sim_sql_grant: "sim_sql w s (''GRANT '' @ x) = w_grant w"
  by (simp add: sim_sql_def nl_def)

lemmas sim_sql_simps = sim_sql_columns sim_sql_ddl sim_sql_owner sim_sql_grants sim_sql_ddl_text
  sim_sql_list sim_sql_list_all sim_sql_remove sim_sql_unload sim_sql_copy sim_sql_get sim_sql_put
  sim_sql_create sim_sql_use sim_sql_grant

lemma first_cells_single: "first_cells (map (\<lambda>c. [(n, f c)]) cs) = Inr (map f cs)"
  by (induction cs) (simp_all add: row_get_def)

lemma sim_rowcount:
  "w_broken w = [] \<Longrightarrow> fst (rowcount (sim_env w) s db sch t log)
     = Inr (if s = Src then w_src_count w else w_tgt_count w)"
  by (simp add: rowcount_def io_splits sim_fst_sql_collect sim_sql_count first_row_def row_get_def)

lemma sim_get_table_columns:
  "fst (get_table_columns (sim_env w) s db sch t log) = Inr (w_columns w)"
  using first_cells_single [of "''COLUMN_NAME''" "\<lambda>c. c" "w_columns w"]
  by (simp add: get_table_columns_def io_splits sim_fst_sql_collect sim_sql_columns)

lemma demo_mig_simps:
  "source_db demo_mig = ''SDB''" "source_schema demo_mig = ''SCH''" "target_db demo_mig = ''TDB''"
  "target_schema demo_mig = ''SCH''" "base_tmp_dir demo_mig = ''/tmp/x''"
  by (simp_all add: demo_mig_def)

lemmas char_defs = py_lower_def py_upper_def lower_char_def upper_char_def ascii_lowercase_def
  ascii_uppercase_def is_word_char_def is_space_def

lemma ddl_orders:
  "rewrite_table_ddl ''create or replace TABLE ORDERS (ID NUMBER(38,0))'' ''SDB'' ''SCH'' ''TDB'' ''SCH''
     = ''create or replace TABLE ORDERS (ID NUMBER(38,0))''"
  by (simp add: rewrite_table_ddl_def match_object_ref_def match_create_table_def match_comment_def
        char_defs dq_def)

lemma sim_create_target:
  "fst (create_target (sim_env w) demo_mig t (w_columns w) log) = Inr ()"
  by (simp add: create_target_def get_table_ddl_def io_splits sim_fst_sql_collect sim_fst_sql_exec
        sim_sql_simps sim_get_table_columns first_row_def row_get_def demo_mig_simps ddl_orders)

lemma sim_capture_grants:
  "fst (capture_grants (sim_env w) m t log) = Inr (VStr ''SYSADMIN'', [(VStr ''ANALYST'', VStr ''SELECT'')])"
  by (simp add: capture_grants_def show_table_owner_def fetch_role_grants_on_table_def
        io_splits row_field_def col_idx_def sim_fst_sql_collect sim_sql_simps row_get_def
        char_defs py_or_def)

lemma sim_utcnow: "fst (utcnow (sim_env w) log) = Inr (w_now w)"
  by (simp add: utcnow_def sim_env_def)

lemma sim_export_table: "fst (export_table (sim_env w) m t cols log) = Inr (strftime (w_now w))"
  by (simp add: export_table_def clean_stage_path_def io_splits sim_utcnow Let_def
        sim_fst_sql_exec [OF sim_sql_remove, simplified] sim_fst_sql_exec [OF sim_sql_unload]
        sim_fst_sql_exec [OF sim_sql_list_all])

lemma sim_list_user_stage:
  "fst (list_user_stage (sim_env w) s sub log) = Inr (map VStr (w_staged w))"
  using first_cells_single [of "''name''" VStr "w_staged w"]
  by (cases "w_staged w")
     (simp_all add: list_user_stage_def Let_def io_splits sim_fst_sql_collect sim_sql_list [simplified])


lemma sim_remove_each_nil: "remove_each env [] log = (Inr (), log)"
  by (simp add: io_return_def)





lemma replay_grants_returns: "fst (replay_grants env m t ow gr log) = Inr ()"
  by (simp add: replay_grants_def io_try_def logging_def split: prod.splits sum.splits)

lemma fmt_comma_int_eval: "fst (io_lift (fmt_comma (VInt a)) log) = Inr (fmt_comma_int a)"
  by (simp add: io_lift_def)




lemma pair_fstI: "fst p = a \<Longrightarrow> p = (a, snd p)"
  by (cases p) simp

section \<open>The trace of the steps before the export\<close>



lemma logging_log: "logging lv msg l = (r, l') \<Longrightarrow> l' = l @ [Logged lv msg]"
  by (auto simp: logging_def)





section \<open>The trace of the pre-flight\<close>


































section \<open>Claims\<close>




text \<open>
  C7. When the row count of the source table has been read and its column list comes back
  empty, the outcome recorded for the table is NO_COLUMNS and nothing else is done: the only
  statements sent are the two reads on the source, so no DDL is fetched and no statement
  reaches the target.
\<close>

theorem C7_no_columns:
  assumes "rowcount env Src (source_db m) (source_schema m) table log = (Inr c, l1)"
    and "get_table_columns env Src (source_db m) (source_schema m) table l1 = (Inr [], l2)"
  shows "migrate_one env m table log = ((table, VInt (- 1), VInt (- 1), NO_COLUMNS), l2)
     \<and> l2 = log @ [Sql Src (count_query (source_db m) (source_schema m) table),
                   Sql Src (columns_query (source_db m) (source_schema m) table)]"
proof -
  have "table_pipeline env m table log = (Inr (table, VInt (- 1), VInt (- 1), NO_COLUMNS), l2)"
    unfolding table_pipeline_def using assms by (simp add: io_bind_def io_return_def)
  then have "migrate_one env m table log = ((table, VInt (- 1), VInt (- 1), NO_COLUMNS), l2)"
    by (simp add: migrate_one_def)
  moreover from rowcount_log [OF assms(1)] get_table_columns_log [OF assms(2)]
  have "l2 = log @ [Sql Src (count_query (source_db m) (source_schema m) table),
                   Sql Src (columns_query (source_db m) (source_schema m) table)]"
    by simp
  ultimately show ?thesis by blast
qed

theorem C7_no_columns_witness:
  "migrate_one (sim_env (orders_world\<lparr>w_columns := []\<rparr>)) demo_mig ''ORDERS'' []
     = ((''ORDERS'', VInt (- 1), VInt (- 1), NO_COLUMNS),
        [Sql Src (count_query ''SDB'' ''SCH'' ''ORDERS''), Sql Src (columns_query ''SDB'' ''SCH'' ''ORDERS'')])"
proof -
  let ?env = "sim_env (orders_world\<lparr>w_columns := []\<rparr>)"
  have 1: "rowcount ?env Src (source_db demo_mig) (source_schema demo_mig) ''ORDERS'' []
      = (Inr (VInt 3), [Sql Src (count_query ''SDB'' ''SCH'' ''ORDERS'')])"
    by (simp add: io_defs str_defs sim_defs catalog_defs)
  have 2: "get_table_columns ?env Src (source_db demo_mig) (source_schema demo_mig) ''ORDERS''
        [Sql Src (count_query ''SDB'' ''SCH'' ''ORDERS'')]
      = (Inr [], [Sql Src (count_query ''SDB'' ''SCH'' ''ORDERS''), Sql Src (columns_query ''SDB'' ''SCH'' ''ORDERS'')])"
    by (simp add: io_defs str_defs sim_defs catalog_defs)
  from C7_no_columns [OF 1 2] show ?thesis by simp
qed

text \<open>
  C3. When the pipeline of one table raises, the handler at the table boundary records
  ERROR (with both counts -1) for that table alone, the loop goes on with the tables after
  it, and the summary names every requested table once, in the order requested. The same
  holds for the summary that \<^verbatim>\<open>migrate_tables_with_user_stage\<close> returns.
\<close>

theorem C3_failure_isolation:
  assumes "migrate_loop env m pre [] log = (s1, l1)"
    and "table_pipeline env m table l1 = (Inl e, l2)"
    and "migrate_loop env m post []
           (l2 @ [Logged LogError (''Failed migrating '' @ source_schema m @ ''.'' @ table @ '': '' @ str_exn e)])
         = (s2, l3)"
  shows "migrate_loop env m (pre @ table # post) [] log
           = (s1 @ (table, VInt (- 1), VInt (- 1), ERROR) # s2, l3)
     \<and> map fst (s1 @ (table, VInt (- 1), VInt (- 1), ERROR) # s2) = pre @ table # post
     \<and> (\<forall>ts log0 summary log'.
           migrate_tables_with_user_stage env m ts log0 = (Inr summary, log') \<longrightarrow> map fst summary = ts)"
proof -
  let ?ev = "Logged LogError (''Failed migrating '' @ source_schema m @ ''.'' @ table @ '': '' @ str_exn e)"
  have one: "migrate_one env m table l1 = ((table, VInt (- 1), VInt (- 1), ERROR), l2 @ [?ev])"
    using assms(2) by (simp add: migrate_one_def)
  have "migrate_loop env m (table # post) [] l1 = ((table, VInt (- 1), VInt (- 1), ERROR) # s2, l3)"
    using one assms(3) migrate_loop_acc [of env m post "[(table, VInt (- 1), VInt (- 1), ERROR)]" "l2 @ [?ev]"]
    by simp
  from migrate_loop_append [OF assms(1) this]
  have run: "migrate_loop env m (pre @ table # post) [] log
           = (s1 @ (table, VInt (- 1), VInt (- 1), ERROR) # s2, l3)" .
  have names: "map fst (s1 @ (table, VInt (- 1), VInt (- 1), ERROR) # s2) = pre @ table # post"
    using migrate_loop_tables [of env m "pre @ table # post" log] run by simp
  have "map fst summary = ts"
    if "migrate_tables_with_user_stage env m ts log0 = (Inr summary, log')" for ts log0 summary log'
  proof -
    from that obtain l0 where "migrate_loop env m ts [] l0 = (summary, log')"
      by (blast dest: migrate_tables_loop)
    with migrate_loop_tables [of env m ts l0] show ?thesis by simp
  qed
  with run names show ?thesis by blast
qed

theorem C3_failure_isolation_witness:
  "fst (migrate_loop (sim_env broken_world) demo_mig ([''A''] @ ''B'' # [''C'']) [] [])
     = [(''A'', VInt (- 1), VInt (- 1), NO_COLUMNS), (''B'', VInt (- 1), VInt (- 1), ERROR),
        (''C'', VInt (- 1), VInt (- 1), NO_COLUMNS)]"
proof -
  let ?l1 = "[Sql Src (count_query ''SDB'' ''SCH'' ''A''), Sql Src (columns_query ''SDB'' ''SCH'' ''A'')]"
  let ?l2 = "?l1 @ [Sql Src (count_query ''SDB'' ''SCH'' ''B'')]"
  let ?e = "Exn SnowparkSQLException ''SQL compilation error: object does not exist''"
  let ?l2' = "?l2 @ [Logged LogError (''Failed migrating '' @ source_schema demo_mig @ ''.'' @ ''B'' @ '': '' @ str_exn ?e)]"
  have 1: "migrate_loop (sim_env broken_world) demo_mig [''A''] [] [] = ([(''A'', VInt (- 1), VInt (- 1), NO_COLUMNS)], ?l1)"
    by (simp add: run_defs broken_world_def)
  have 2: "table_pipeline (sim_env broken_world) demo_mig ''B'' ?l1 = (Inl ?e, ?l2)"
    by (simp add: run_defs broken_world_def)
  have 3: "migrate_loop (sim_env broken_world) demo_mig [''C''] [] ?l2'
     = ([(''C'', VInt (- 1), VInt (- 1), NO_COLUMNS)], snd (migrate_loop (sim_env broken_world) demo_mig [''C''] [] ?l2'))"
    by (simp add: run_defs broken_world_def)
  from C3_failure_isolation [OF 1 2 3] show ?thesis by simp
qed



text \<open>
  C2. For a table whose source row count is a nonzero number and whose pipeline has got as
  far as the export: when the listing of the source staging prefix after the export finds
  no file, the pipeline raises, and the outcome recorded for the table is ERROR (with both
  counts -1), not OK and not OK_EMPTY.
\<close>

theorem C2_empty_export_is_error:
  assumes "rowcount env Src (source_db m) (source_schema m) table log = (Inr (VInt n), l1)"
    and "n \<noteq> 0"
    and "get_table_columns env Src (source_db m) (source_schema m) table l1 = (Inr src_columns, l2)"
    and "src_columns \<noteq> []"
    and "create_target env m table src_columns l2 = (Inr (), l3)"
    and "capture_grants env m table l3 = (Inr (owner_role, role_grants), l4)"
    and "export_table env m table src_columns l4 = (Inr timestamp, l5)"
    and "list_user_stage env Src (src_stage_subpath timestamp table) l5 = (Inr [], l6)"
  shows "table_pipeline env m table log = (Inl (unloaded_nothing timestamp table (VInt n)), l6)
     \<and> fst (migrate_one env m table log) = (table, VInt (- 1), VInt (- 1), ERROR)"
proof -
  have "transfer_and_load env m table (VInt n) owner_role role_grants timestamp l5
      = (Inl (unloaded_nothing timestamp table (VInt n)), l6)"
    using assms(8) by (simp add: transfer_and_load_def io_bind_def io_raise_def)
  then have "table_pipeline env m table log = (Inl (unloaded_nothing timestamp table (VInt n)), l6)"
    using assms(1-7) unfolding table_pipeline_def
    by (simp add: io_bind_def io_then_def io_lift_def)
  then show ?thesis by (simp add: migrate_one_def)
qed

theorem C2_empty_export_is_error_witness:
  "fst (migrate_one (sim_env (orders_world\<lparr>w_staged := []\<rparr>)) demo_mig ''ORDERS'' [])
     = (''ORDERS'', VInt (- 1), VInt (- 1), ERROR)
   \<and> fst (table_pipeline (sim_env (orders_world\<lparr>w_staged := []\<rparr>)) demo_mig ''ORDERS'' [])
     = Inl (unloaded_nothing (strftime noon) ''ORDERS'' (VInt 3))"
proof -
  let ?w = "orders_world\<lparr>w_staged := []\<rparr>"
  let ?env = "sim_env ?w"
  let ?l1 = "snd (rowcount ?env Src (source_db demo_mig) (source_schema demo_mig) ''ORDERS'' [])"
  let ?l2 = "snd (get_table_columns ?env Src (source_db demo_mig) (source_schema demo_mig) ''ORDERS'' ?l1)"
  let ?l3 = "snd (create_target ?env demo_mig ''ORDERS'' [VStr ''ID''] ?l2)"
  let ?l4 = "snd (capture_grants ?env demo_mig ''ORDERS'' ?l3)"
  let ?l5 = "snd (export_table ?env demo_mig ''ORDERS'' [VStr ''ID''] ?l4)"
  let ?l6 = "snd (list_user_stage ?env Src (src_stage_subpath (strftime noon) ''ORDERS'') ?l5)"
  have w: "w_broken ?w = []" "w_columns ?w = [VStr ''ID'']" "w_src_count ?w = VInt 3"
    "w_staged ?w = []" "w_now ?w = noon"
    by (simp_all add: orders_world_def)
  have 1: "rowcount ?env Src (source_db demo_mig) (source_schema demo_mig) ''ORDERS'' [] = (Inr (VInt 3), ?l1)"
    by (rule pair_fstI) (simp add: sim_rowcount w)
  have 2: "(3::int) \<noteq> 0" by simp
  have 3: "get_table_columns ?env Src (source_db demo_mig) (source_schema demo_mig) ''ORDERS'' ?l1
      = (Inr [VStr ''ID''], ?l2)"
    by (rule pair_fstI) (simp add: sim_get_table_columns w)
  have 4: "[VStr ''ID''] \<noteq> []" by simp
  have 5: "create_target ?env demo_mig ''ORDERS'' [VStr ''ID''] ?l2 = (Inr (), ?l3)"
    using sim_create_target [of ?w "''ORDERS''" ?l2] by (intro pair_fstI) (simp add: w)
  have 6: "capture_grants ?env demo_mig ''ORDERS'' ?l3
      = (Inr (VStr ''SYSADMIN'', [(VStr ''ANALYST'', VStr ''SELECT'')]), ?l4)"
    by (rule pair_fstI) (simp add: sim_capture_grants)
  have 7: "export_table ?env demo_mig ''ORDERS'' [VStr ''ID''] ?l4 = (Inr (strftime noon), ?l5)"
    by (rule pair_fstI) (simp add: sim_export_table w)
  have 8: "list_user_stage ?env Src (src_stage_subpath (strftime noon) ''ORDERS'') ?l5 = (Inr [], ?l6)"
    by (rule pair_fstI) (simp add: sim_list_user_stage w)
  from C2_empty_export_is_error [OF 1 2 3 4 5 6 7 8] show ?thesis by simp
qed




text \<open>
  C8. The grant and ownership step never raises, so the validation that follows always runs
  and alone decides the status. Inside the step, a GRANT that fails with a message
  containing "already exists" or "dependent grant" (in any case) is passed over silently,
  and an ownership transfer that fails with "already owns" likewise; any other failure of
  these two statements is logged as a warning, and the step goes on. A failure to create a
  role ends the step with a warning.
\<close>

theorem C8_grants_best_effort:
  "fst (replay_grants env m table owner_role role_grants log) = Inr ()
   \<and> io_then (replay_grants env m table owner_role role_grants) (validate env m table c) log
       = validate env m table c (snd (replay_grants env m table owner_role role_grants log))
   \<and> (ensure_role env Tgt role log = (Inl e, l1)
      \<longrightarrow> replay_grants env m table owner_role ((role, priv) # gs) log
            = (Inr (), l1 @ [Logged LogWarning (replay_warning table e)]))
   \<and> (ensure_role env sess role log = (Inr (), l1)
        \<and> sql_resp env l1 sess (grant_sql db schema table role priv) = Inl e
      \<longrightarrow> apply_role_grants env sess db schema table ((role, priv) # gs) log
            = apply_role_grants env sess db schema table gs
                (l1 @ [Sql sess (grant_sql db schema table role priv)]
                  @ (if py_in ''already exists'' (py_lower (str_exn e))
                        \<or> py_in ''dependent grant'' (py_lower (str_exn e))
                     then [] else [Logged LogWarning (grant_warning schema table role priv e)])))
   \<and> (ensure_role env sess owner log = (Inr (), l1)
        \<and> sql_resp env l1 sess (ownership_sql db schema table owner) = Inl e
      \<longrightarrow> transfer_ownership env sess db schema table owner log
            = (Inr (), l1 @ [Sql sess (ownership_sql db schema table owner)]
                  @ (if py_in ''already owns'' (py_lower (str_exn e))
                     then [] else [Logged LogWarning (ownership_warning schema table owner e)])))"
proof (intro conjI impI)
  show "fst (replay_grants env m table owner_role role_grants log) = Inr ()"
    by (rule replay_grants_returns)
  then show "io_then (replay_grants env m table owner_role role_grants) (validate env m table c) log
       = validate env m table c (snd (replay_grants env m table owner_role role_grants log))"
    by (simp add: io_then_split)
next
  assume "ensure_role env Tgt role log = (Inl e, l1)"
  then show "replay_grants env m table owner_role ((role, priv) # gs) log
            = (Inr (), l1 @ [Logged LogWarning (replay_warning table e)])"
    by (simp add: replay_grants_def io_then_def io_bind_def io_try_def logging_def)
next
  assume a: "ensure_role env sess role log = (Inr (), l1)
        \<and> sql_resp env l1 sess (grant_sql db schema table role priv) = Inl e"
  then show "apply_role_grants env sess db schema table ((role, priv) # gs) log
            = apply_role_grants env sess db schema table gs
                (l1 @ [Sql sess (grant_sql db schema table role priv)]
                  @ (if py_in ''already exists'' (py_lower (str_exn e))
                        \<or> py_in ''dependent grant'' (py_lower (str_exn e))
                     then [] else [Logged LogWarning (grant_warning schema table role priv e)]))"
    by (simp add: io_then_def io_bind_def io_try_def sql_exec_def sql_collect_def io_return_def logging_def)
next
  assume a: "ensure_role env sess owner log = (Inr (), l1)
        \<and> sql_resp env l1 sess (ownership_sql db schema table owner) = Inl e"
  then show "transfer_ownership env sess db schema table owner log
            = (Inr (), l1 @ [Sql sess (ownership_sql db schema table owner)]
                  @ (if py_in ''already owns'' (py_lower (str_exn e))
                     then [] else [Logged LogWarning (ownership_warning schema table owner e)]))"
    by (simp add: transfer_ownership_def io_then_def io_bind_def io_try_def sql_exec_def sql_collect_def
          io_return_def logging_def)
qed

theorem C8_grants_best_effort_witness:
  "apply_role_grants (sim_env refusing_world) Tgt ''TDB'' ''SCH'' ''ORDERS'' [(VStr ''ANALYST'', VStr ''SELECT'')] []
     = (Inr (), [Sql Tgt (create_role_sql (VStr ''ANALYST'')),
                 Sql Tgt (grant_sql ''TDB'' ''SCH'' ''ORDERS'' (VStr ''ANALYST'') (VStr ''SELECT''))])
   \<and> transfer_ownership (sim_env refusing_world) Tgt ''TDB'' ''SCH'' ''ORDERS'' (VStr ''SYSADMIN'') []
     = (Inr (), [Sql Tgt (create_role_sql (VStr ''SYSADMIN'')),
                 Sql Tgt (ownership_sql ''TDB'' ''SCH'' ''ORDERS'' (VStr ''SYSADMIN'')),
                 Logged LogWarning (ownership_warning ''SCH'' ''ORDERS'' (VStr ''SYSADMIN'')
                    (Exn SnowparkSQLException ''Grant already exists''))])
   \<and> replay_grants (sim_env refusing_world\<lparr>sql_resp := \<lambda>log s q. Inl (Exn SnowparkSQLException ''Insufficient privileges'')\<rparr>)
        demo_mig ''ORDERS'' (VStr ''SYSADMIN'') [(VStr ''ANALYST'', VStr ''SELECT'')] []
     = (Inr (), [Sql Tgt (create_role_sql (VStr ''ANALYST'')),
                 Logged LogWarning (replay_warning ''ORDERS'' (Exn SnowparkSQLException ''Insufficient privileges''))])"
proof -
  let ?env = "sim_env refusing_world"
  let ?e = "Exn SnowparkSQLException ''Grant already exists''"
  have role: "ensure_role ?env Tgt r [] = (Inr (), [Sql Tgt (create_role_sql r)])" for r
    by (simp add: ensure_role_def sql_exec_def io_bind_def io_return_def sql_collect_def sim_env_def
          sim_sql_create [simplified] create_role_sql_def)
  have g: "sql_resp ?env [Sql Tgt (create_role_sql (VStr ''ANALYST''))] Tgt
             (grant_sql ''TDB'' ''SCH'' ''ORDERS'' (VStr ''ANALYST'') (VStr ''SELECT'')) = Inl ?e"
    by (simp add: sim_env_def grant_sql_def sim_sql_grant [simplified] refusing_world_def)
  have o: "sql_resp ?env [Sql Tgt (create_role_sql (VStr ''SYSADMIN''))] Tgt
             (ownership_sql ''TDB'' ''SCH'' ''ORDERS'' (VStr ''SYSADMIN'')) = Inl ?e"
    by (simp add: sim_env_def ownership_sql_def sim_sql_grant [simplified] refusing_world_def)
  have yes: "py_in ''already exists'' (py_lower (str_exn ?e))"
    by (simp add: char_defs)
  have no: "\<not> py_in ''already owns'' (py_lower (str_exn ?e))"
    by (simp add: char_defs)
  note inst = C8_grants_best_effort [where env = ?env and sess = Tgt and log = "[]" and db = "''TDB''"
      and schema = "''SCH''" and table = "''ORDERS''" and e = ?e and gs = "[]"]
  from inst [where role = "VStr ''ANALYST''" and priv = "VStr ''SELECT''"
      and ?l1.0 = "[Sql Tgt (create_role_sql (VStr ''ANALYST''))]"]
    role [of "VStr ''ANALYST''"] g yes
  have 1: "apply_role_grants ?env Tgt ''TDB'' ''SCH'' ''ORDERS'' [(VStr ''ANALYST'', VStr ''SELECT'')] []
     = (Inr (), [Sql Tgt (create_role_sql (VStr ''ANALYST'')),
                 Sql Tgt (grant_sql ''TDB'' ''SCH'' ''ORDERS'' (VStr ''ANALYST'') (VStr ''SELECT''))])"
    by (simp add: io_return_def)
  from inst [where owner = "VStr ''SYSADMIN''" and ?l1.0 = "[Sql Tgt (create_role_sql (VStr ''SYSADMIN''))]"]
    role [of "VStr ''SYSADMIN''"] o no
  have 2: "transfer_ownership ?env Tgt ''TDB'' ''SCH'' ''ORDERS'' (VStr ''SYSADMIN'') []
     = (Inr (), [Sql Tgt (create_role_sql (VStr ''SYSADMIN'')),
                 Sql Tgt (ownership_sql ''TDB'' ''SCH'' ''ORDERS'' (VStr ''SYSADMIN'')),
                 Logged LogWarning (ownership_warning ''SCH'' ''ORDERS'' (VStr ''SYSADMIN'') ?e)])"
    by simp
  let ?deaf = "sim_env refusing_world\<lparr>sql_resp := \<lambda>log s q. Inl (Exn SnowparkSQLException ''Insufficient privileges'')\<rparr>"
  have f: "ensure_role ?deaf Tgt (VStr ''ANALYST'') []
      = (Inl (Exn SnowparkSQLException ''Insufficient privileges''), [Sql Tgt (create_role_sql (VStr ''ANALYST''))])"
    by (simp add: ensure_role_def sql_exec_def io_bind_def io_return_def sql_collect_def)
  from C8_grants_best_effort [where env = ?deaf and log = "[]" and table = "''ORDERS''"
      and role = "VStr ''ANALYST''" and priv = "VStr ''SELECT''" and gs = "[]" and m = demo_mig
      and owner_role = "VStr ''SYSADMIN''" and e = "Exn SnowparkSQLException ''Insufficient privileges''"
      and ?l1.0 = "[Sql Tgt (create_role_sql (VStr ''ANALYST''))]"] f
  have 3: "replay_grants ?deaf demo_mig ''ORDERS'' (VStr ''SYSADMIN'') [(VStr ''ANALYST'', VStr ''SELECT'')] []
     = (Inr (), [Sql Tgt (create_role_sql (VStr ''ANALYST'')),
                 Logged LogWarning (replay_warning ''ORDERS'' (Exn SnowparkSQLException ''Insufficient privileges''))])"
    by simp
  from 1 2 3 show ?thesis by blast
qed





end
